theory Spec2Isabelle
  imports
    Main
    "HOL-Library.Char_ord"
    "HOL-Library.List_Lexorder"
    "HOL-Library.Product_Lexorder"
begin

section \<open>Python values\<close>

text \<open>
  A Python \<open>str\<close> is a \<open>string\<close>: one \<open>char\<close> of the model is one character of the
  Python string (the characters below code point 256, which cover the Portuguese names
  of the data). With \<open>Char_ord\<close> and \<open>List_Lexorder\<close> the order on \<open>string\<close> is the
  lexicographic order by character code, which is how Python compares \<open>str\<close> and how
  pandas sorts an index of strings.

  Every exception the modelled code can raise is a constructor of \<open>error\<close>; a function
  that can raise returns \<open>error + 'a\<close>.
\<close>

datatype error =
    AssertionError
  | ValueError string
  | KeyError string
  | TypeError
  | MergeError

text \<open>
  The integer columns of a frame are \<open>int64\<close>: numpy adds them modulo \<open>2^64\<close>, read as
  a signed number.
\<close>

definition wrap64 :: "int \<Rightarrow> int" where
  "wrap64 x = (x + 2 ^ 63) mod 2 ^ 64 - 2 ^ 63"

definition sum64 :: "int list \<Rightarrow> int" where
  "sum64 xs = wrap64 (sum_list xs)"

definition startswith :: "string \<Rightarrow> string \<Rightarrow> bool" where
  "startswith s p = (take (length p) s = p)"

text \<open>\<open>s.rsplit(' ', 1)\<close>: split once, at the last blank.\<close>

definition rsplit1 :: "string \<Rightarrow> string list" where
  "rsplit1 s =
     (if CHR '' '' \<in> set s
      then [rev (tl (dropWhile (\<lambda>c. c \<noteq> CHR '' '') (rev s))),
            rev (takeWhile (\<lambda>c. c \<noteq> CHR '' '') (rev s))]
      else [s])"

text \<open>\<open>sep.join(parts)\<close>\<close>

fun join :: "string \<Rightarrow> string list \<Rightarrow> string" where
  "join sep [] = []"
| "join sep [p] = p"
| "join sep (p # q # ps) = p @ sep @ join sep (q # ps)"

section \<open>Frames\<close>

text \<open>
  A pandas \<open>DataFrame\<close>: the row labels, the column labels and the cells, one list per
  row. A \<open>Series\<close> is a frame of one column, labelled with the name of the series.
\<close>

record ('i, 'l, 'c) frame =
  index :: "'i list"
  columns :: "'l list"
  vals :: "'c list list"

text \<open>\<open>df.at[i, c]\<close>: the cell in the row labelled \<open>i\<close> and the column labelled \<open>c\<close>;
  \<open>None\<close> where pandas raises \<open>KeyError\<close>.\<close>

definition at :: "('i, 'l, 'c) frame \<Rightarrow> 'i \<Rightarrow> 'l \<Rightarrow> 'c option" where
  "at df i c =
     (case map_of (zip (index df) (vals df)) i of
        None \<Rightarrow> None
      | Some r \<Rightarrow> map_of (zip (columns df) r) c)"

section \<open>covid19/data.py\<close>

definition COVID_19_BY_CITY_URL :: string where
  "COVID_19_BY_CITY_URL =
     ''https://raw.githubusercontent.com/wcota/covid19br/master/cases-brazil-cities-time.csv''"

definition COVID_SAUDE_URL :: string where
  "COVID_SAUDE_URL =
     ''https://raw.githubusercontent.com/3778/COVID-19/master/data/latest_cases_ms.csv''"

definition FIOCRUZ_URL :: string where
  "FIOCRUZ_URL = ''https://bigdata-covid19.icict.fiocruz.br/sd/dados_casos.csv''"

text \<open>
  The rows of the three upstream files as \<open>read_csv\<close> parses them. A date is a day
  number; a count is an \<open>int64\<close>; a region cell may be missing (\<open>None\<close>).
  The frame \<open>df\<close> that \<open>load_cases\<close> builds from any of them has the columns of
  \<open>row\<close>: \<open>state\<close> and \<open>city\<close> are the two columns \<open>by\<close> can name.
\<close>

record ms_row =
  ms_date :: int
  estado :: "string option"
  casosNovos :: int
  casosAcumulados :: int

record fiocruz_row =
  fz_date :: int
  fz_name :: string
  new_cases :: int

record region =
  state :: "string option"
  city :: "string option"

record row = region +
  date :: int
  newCases :: int
  totalCases :: int

text \<open>What the three URLs hold when they are read.\<close>

record world =
  ms_csv :: "ms_row list"
  wcota_csv :: "row list"
  fiocruz_csv :: "fiocruz_row list"

text \<open>\<open>df[by]\<close> for the two values of \<open>by\<close> that pass the assertions.\<close>

definition col :: "string \<Rightarrow> 'a region_scheme \<Rightarrow> string option" where
  "col by r = (if by = ''state'' then state r else city r)"

text \<open>
  \<open>prepare_fiocruz_data\<close>. \<open>state2initial\<close> is a dictionary of \<open>covid19.utils\<close>, a
  parameter here. A frame that has no \<open>totalCases\<close> column yet carries 0 there.
  The function returns Python's \<open>None\<close> when \<open>by\<close> is neither value.
\<close>

definition fix_city_name :: "string \<Rightarrow> string" where
  "fix_city_name c = join ''/'' (rsplit1 c)"

definition replace_dict :: "(string \<rightharpoonup> string) \<Rightarrow> string \<Rightarrow> string" where
  "replace_dict d s = (case d s of None \<Rightarrow> s | Some t \<Rightarrow> t)"

definition prepare_fiocruz_data ::
  "(string \<rightharpoonup> string) \<Rightarrow> fiocruz_row list \<Rightarrow> string \<Rightarrow> row list option" where
  "prepare_fiocruz_data state2initial df by =
     (if by = ''state'' then
        Some (map (\<lambda>r. r\<lparr>state := map_option (replace_dict state2initial) (state r)\<rparr>)
               (filter (\<lambda>r. state r \<noteq> None)
                 (map (\<lambda>f. \<lparr>state = (if startswith (fz_name f) ''#BR''
                                      then Some (drop 5 (fz_name f)) else None),
                             city = None, date = fz_date f,
                             newCases = new_cases f, totalCases = 0\<rparr>) df)))
      else if by = ''city'' then
        Some (map (\<lambda>r. r\<lparr>city := map_option fix_city_name (city r)\<rparr>)
               (filter (\<lambda>r. city r \<noteq> None)
                 (map (\<lambda>f. \<lparr>state = None,
                             city = (if startswith (fz_name f) ''#Mun BR''
                                     then Some (drop 9 (fz_name f)) else None),
                             date = fz_date f,
                             newCases = new_cases f, totalCases = 0\<rparr>) df)))
      else None)"

text \<open>
  \<open>df.groupby([by])['newCases'].cumsum()\<close>: the running total of each group, in the
  order of the rows; a row with a missing key gets no total. \<open>acc\<close> holds the total
  of each group so far.
\<close>

fun group_cumsum :: "(string \<rightharpoonup> int) \<Rightarrow> (string option \<times> int) list \<Rightarrow> int option list" where
  "group_cumsum acc [] = []"
| "group_cumsum acc ((None, x) # rs) = None # group_cumsum acc rs"
| "group_cumsum acc ((Some k, x) # rs) =
     (let s = wrap64 ((case acc k of None \<Rightarrow> 0 | Some a \<Rightarrow> a) + x)
      in Some s # group_cumsum (acc(k \<mapsto> s)) rs)"

text \<open>\<open>df['totalCases'] = ...\<close> with the running totals; after \<open>prepare_fiocruz_data\<close>
  no key is missing, and a missing total would be 0 after the final \<open>fillna\<close>.\<close>

definition assign_totalCases :: "string \<Rightarrow> row list \<Rightarrow> row list" where
  "assign_totalCases by df =
     map (\<lambda>(r, t). r\<lparr>totalCases := (case t of None \<Rightarrow> 0 | Some v \<Rightarrow> v)\<rparr>)
       (zip df (group_cumsum Map.empty (map (\<lambda>r. (col by r, newCases r)) df)))"

text \<open>
  The returned expression of \<open>load_cases\<close>, step by step.
  \<open>groupby(['date', by])[['newCases', 'totalCases']].sum()\<close>: one row per pair
  (date, key) that occurs, in ascending order of the pair; rows with a missing key are
  left out.
\<close>

definition group_keys :: "string \<Rightarrow> row list \<Rightarrow> (int \<times> string) list" where
  "group_keys by df =
     sort (remdups (List.map_filter (\<lambda>r. map_option (\<lambda>k. (date r, k)) (col by r)) df))"

definition groupby_sum :: "string \<Rightarrow> row list \<Rightarrow> (int \<times> string, string, int) frame" where
  "groupby_sum by df =
     \<lparr>index = group_keys by df,
      columns = [''newCases'', ''totalCases''],
      vals = map (\<lambda>(d, k).
                [sum64 (map newCases (filter (\<lambda>r. date r = d \<and> col by r = Some k) df)),
                 sum64 (map totalCases (filter (\<lambda>r. date r = d \<and> col by r = Some k) df))])
               (group_keys by df)\<rparr>"

text \<open>\<open>.unstack(by)\<close>: the keys move from the row index to a second, inner level of the
  columns; a (date, key) pair with no row gives a missing cell. (pandas holds a column
  with a missing cell as \<open>float64\<close> until \<open>astype(int)\<close>, which is exact for the counts
  below \<open>2^53\<close>; the model keeps the integer.)\<close>

definition unstack :: "(int \<times> string, string, int) frame \<Rightarrow> (int, string \<times> string, int option) frame" where
  "unstack g =
     \<lparr>index = sort (remdups (map fst (index g))),
      columns = concat (map (\<lambda>m. map (\<lambda>k. (m, k)) (sort (remdups (map snd (index g)))))
                          (columns g)),
      vals = map (\<lambda>d. concat (map (\<lambda>m. map (\<lambda>k. at g (d, k) m)
                                         (sort (remdups (map snd (index g)))))
                                (columns g)))
               (sort (remdups (map fst (index g))))\<rparr>"

definition sort_index :: "('i::linorder, 'l, 'c) frame \<Rightarrow> ('i, 'l, 'c) frame" where
  "sort_index df =
     df\<lparr>index := map fst (sort_key fst (zip (index df) (vals df))),
        vals := map snd (sort_key fst (zip (index df) (vals df)))\<rparr>"

definition swaplevel :: "('i, 'a \<times> 'b, 'c) frame \<Rightarrow> ('i, 'b \<times> 'a, 'c) frame" where
  "swaplevel df = \<lparr>index = index df, columns = map prod.swap (columns df), vals = vals df\<rparr>"

definition fillna :: "'c \<Rightarrow> ('i, 'l, 'c option) frame \<Rightarrow> ('i, 'l, 'c option) frame" where
  "fillna v df = df\<lparr>vals := map (map (\<lambda>c. case c of None \<Rightarrow> Some v | Some x \<Rightarrow> Some x)) (vals df)\<rparr>"

text \<open>\<open>.astype(int)\<close> raises on a missing value.\<close>

definition astype_int :: "('i, 'l, int option) frame \<Rightarrow> error + ('i, 'l, int) frame" where
  "astype_int df =
     (if \<exists>r \<in> set (vals df). None \<in> set r
      then Inl (ValueError ''Cannot convert non-finite values (NA or inf) to integer'')
      else Inr \<lparr>index = index df, columns = columns df, vals = map (map the) (vals df)\<rparr>)"

definition pivot :: "string \<Rightarrow> row list \<Rightarrow> error + (int, string \<times> string, int) frame" where
  "pivot by df = astype_int (fillna 0 (swaplevel (sort_index (unstack (groupby_sum by df)))))"

text \<open>
  The branch of \<open>load_cases\<close> on \<open>source\<close>: it reads the source's URL and brings the
  columns to the common names. The result comes with the URLs that were fetched, in
  order. \<open>by = city\<close> is refused for \<open>ms\<close> before its file is read.
  A fiocruz file that has the header and no data row gives \<open>read_csv\<close> no number to type
  \<open>new_cases\<close> by: the column is of dtype \<open>object\<close>, and the \<open>cumsum\<close> of line 81 raises
  \<open>TypeError\<close>, after the file was fetched and prepared.
\<close>

definition read_source ::
  "(string \<rightharpoonup> string) \<Rightarrow> world \<Rightarrow> string \<Rightarrow> string \<Rightarrow> (error + row list) \<times> string list" where
  "read_source state2initial w by source =
     (if source = ''ms'' then
        (if by \<noteq> ''state'' then (Inl AssertionError, [])
         else (Inr (map (\<lambda>m. \<lparr>state = estado m, city = None, date = ms_date m,
                                newCases = casosNovos m,
                                totalCases = casosAcumulados m\<rparr>) (ms_csv w)),
               [COVID_SAUDE_URL]))
      else if source = ''wcota'' then
        (Inr (filter (\<lambda>r. state r \<noteq> Some ''TOTAL'') (wcota_csv w)), [COVID_19_BY_CITY_URL])
      else
        (case prepare_fiocruz_data state2initial (fiocruz_csv w) by of
           None \<Rightarrow> (Inl TypeError, [FIOCRUZ_URL])
         | Some df \<Rightarrow>
             (if fiocruz_csv w = [] then (Inl TypeError, [FIOCRUZ_URL])
              else (Inr (assign_totalCases by df), [FIOCRUZ_URL]))))"

text \<open>
  \<open>load_cases(by, source)\<close>: the two assertions, the branch on the source, the returned
  expression. An assertion that fails has fetched nothing.
\<close>

definition load_cases ::
  "(string \<rightharpoonup> string) \<Rightarrow> world \<Rightarrow> string \<Rightarrow> string
     \<Rightarrow> (error + (int, string \<times> string, int) frame) \<times> string list" where
  "load_cases state2initial w by source =
     (if source \<notin> set [''ms'', ''wcota'', ''fiocruz''] then (Inl AssertionError, [])
      else if by \<notin> set [''state'', ''city''] then (Inl AssertionError, [])
      else (case read_source state2initial w by source of
              (Inl e, fetched) \<Rightarrow> (Inl e, fetched)
            | (Inr df, fetched) \<Rightarrow> (pivot by df, fetched)))"

text \<open>
  \<open>load_population(by)\<close>. The file \<open>data/ibge_population.csv\<close> is a parameter: its rows,
  with the columns \<open>uf\<close>, \<open>city\<close> and \<open>estimated_population\<close> as \<open>read_csv\<close> parses
  them. \<open>df.city + '/' + df.state\<close> is missing where either part is.
\<close>

record ibge_row =
  uf :: "string option"
  ibge_city :: "string option"
  ibge_estimated_population :: int

record pop_row = region +
  estimated_population :: int

definition str_add :: "string option \<Rightarrow> string option \<Rightarrow> string option" where
  "str_add a b = (case (a, b) of (Some x, Some y) \<Rightarrow> Some (x @ y) | _ \<Rightarrow> None)"

text \<open>\<open>df.groupby(by)['estimated_population'].sum()\<close>: a series named
  \<open>estimated_population\<close>, one entry per key that occurs, in ascending order of the key.\<close>

definition groupby_population :: "string \<Rightarrow> pop_row list \<Rightarrow> (string, string, int) frame" where
  "groupby_population by df =
     \<lparr>index = sort (remdups (List.map_filter (col by) df)),
      columns = [''estimated_population''],
      vals = map (\<lambda>k. [sum64 (map estimated_population (filter (\<lambda>r. col by r = Some k) df))])
               (sort (remdups (List.map_filter (col by) df)))\<rparr>"

text \<open>\<open>.rename(columns={'uf': 'state'}).assign(city=lambda df: df.city + '/' + df.state)\<close>\<close>

definition ibge_frame :: "ibge_row list \<Rightarrow> pop_row list" where
  "ibge_frame ibge =
     map (\<lambda>r. r\<lparr>city := str_add (str_add (city r) (Some ''/'')) (state r)\<rparr>)
       (map (\<lambda>i. \<lparr>state = uf i, city = ibge_city i,
                   estimated_population = ibge_estimated_population i\<rparr>) ibge)"

definition load_population :: "ibge_row list \<Rightarrow> string \<Rightarrow> error + (string, string, int) frame" where
  "load_population ibge by =
     (if by \<notin> set [''state'', ''city''] then Inl AssertionError
      else Inr (sort_index (groupby_population by (ibge_frame ibge))))"

section \<open>simulator/pages/utils/viz.py\<close>

text \<open>
  The numbers of the simulation (counts, time steps, calendar days) are values of one
  numeric type \<open>'c\<close>; a calendar date is its day number, so that
  \<open>start_datetime + timedelta(offset)\<close> is \<open>start + offset\<close>. \<open>np.mean\<close> and \<open>np.std\<close>, the
  two functions the code hands to \<open>agg\<close>, are parameters: the statements hold for
  whatever they compute. The column labels of these frames are strings.

  \<open>series df l\<close> is \<open>df[l]\<close> for a label the frame has exactly once.
\<close>

definition pos :: "'l \<Rightarrow> 'l list \<Rightarrow> nat" where
  "pos l cs = length (takeWhile (\<lambda>c. c \<noteq> l) cs)"

definition series :: "('i, 'l, 'c) frame \<Rightarrow> 'l \<Rightarrow> 'c list" where
  "series df l = map (\<lambda>r. r ! pos l (columns df)) (vals df)"

text \<open>\<open>df.assign(l=xs)\<close> and \<open>df[l] = xs\<close>: the column \<open>l\<close> is replaced, or added as the last
  one. The first builds a new frame; for the second the caller stores the result.\<close>

definition assign :: "'l \<Rightarrow> 'c list \<Rightarrow> ('i, 'l, 'c) frame \<Rightarrow> ('i, 'l, 'c) frame" where
  "assign l xs df =
     (if l \<in> set (columns df)
      then df\<lparr>vals := map (\<lambda>(r, x). r[pos l (columns df) := x]) (zip (vals df) xs)\<rparr>
      else df\<lparr>columns := columns df @ [l],
              vals := map (\<lambda>(r, x). r @ [x]) (zip (vals df) xs)\<rparr>)"

definition add_prefix :: "string \<Rightarrow> ('i, string, 'c) frame \<Rightarrow> ('i, string, 'c) frame" where
  "add_prefix p df = df\<lparr>columns := map (\<lambda>c. p @ c) (columns df)\<rparr>"

text \<open>
  \<open>unstack_iterations_ndarray\<close>. A two-dimensional array is the list of its rows, all of
  one length. \<open>pd.DataFrame(arr, index=t_space)\<close> labels the rows of \<open>arr\<close> with \<open>t_space\<close>
  and its columns with 0, 1, ...; it raises when \<open>t_space\<close> has not one label per row
  (with a message that quotes the two shapes, abridged here).
\<close>

definition ncols :: "'c list list \<Rightarrow> nat" where
  "ncols arr = (case arr of [] \<Rightarrow> 0 | r # _ \<Rightarrow> length r)"

definition DataFrame :: "'c list list \<Rightarrow> 'i list \<Rightarrow> error + ('i, nat, 'c) frame" where
  "DataFrame arr idx =
     (if length idx \<noteq> length arr
      then Inl (ValueError ''Shape of passed values does not match the indices'')
      else Inr \<lparr>index = idx, columns = [0..<ncols arr], vals = arr\<rparr>)"

text \<open>\<open>.unstack()\<close> of a frame with a plain index: a series over the pairs (column label,
  row label), column by column.\<close>

definition unstack_frame :: "('i, nat, 'c) frame \<Rightarrow> ((nat \<times> 'i) \<times> 'c) list" where
  "unstack_frame df =
     concat (map (\<lambda>j. map (\<lambda>(t, r). ((j, t), r ! j)) (zip (index df) (vals df)))
                 (columns df))"

text \<open>\<open>.reset_index().rename(columns={"level_0": "iteration", "level_1": "Dias", 0: name})\<close>:
  the two index levels become the first two columns, the rows are numbered anew.\<close>

definition reset_index_rename ::
  "string \<Rightarrow> ((nat \<times> 'c) \<times> 'c) list \<Rightarrow> (nat, string, 'c::semiring_1) frame" where
  "reset_index_rename name s =
     \<lparr>index = [0..<length s],
      columns = [''iteration'', ''Dias'', name],
      vals = map (\<lambda>((j, t), v). [of_nat j, t, v]) s\<rparr>"

definition unstack_iterations_ndarray ::
  "'c list list \<Rightarrow> 'c list \<Rightarrow> string \<Rightarrow> error + (nat, string, 'c::semiring_1) frame" where
  "unstack_iterations_ndarray arr t_space name =
     (case DataFrame arr t_space of
        Inl e \<Rightarrow> Inl e
      | Inr df \<Rightarrow> Inr (reset_index_rename name (unstack_frame df)))"

text \<open>
  \<open>df.groupby("Dias").agg({variable: [np.mean, np.std]})\<close>: one row per value of the
  \<open>Dias\<close> column, in ascending order, holding the two aggregates of the \<open>variable\<close> cells
  of the rows with that value (\<open>group_cells\<close>, in the order of the rows); the columns have
  the two levels (variable, function name). It raises \<open>KeyError\<close> when there is no \<open>Dias\<close>
  column or no \<open>variable\<close> column, and \<open>ValueError\<close> when the grouping label is repeated.
  The grouping column can itself be the variable (in current pandas; pandas 1.0 raised
  \<open>SpecificationError\<close>). With a repeated \<open>variable\<close> label pandas raises as well, at a
  place that depends on its version; the model raises \<open>ValueError\<close>.
\<close>

definition group_cells :: "('i, string, 'c) frame \<Rightarrow> string \<Rightarrow> 'c \<Rightarrow> 'c list" where
  "group_cells df variable t =
     map snd (filter (\<lambda>(d, x). d = t) (zip (series df ''Dias'') (series df variable)))"

definition groupby_agg ::
  "('c list \<Rightarrow> 'c) \<Rightarrow> ('c list \<Rightarrow> 'c) \<Rightarrow> ('i, string, 'c::linorder) frame \<Rightarrow> string
     \<Rightarrow> error + ('c, string \<times> string, 'c) frame" where
  "groupby_agg np_mean np_std df variable =
     (if ''Dias'' \<notin> set (columns df) then Inl (KeyError ''Dias'')
      else if 1 < count_list (columns df) ''Dias''
        then Inl (ValueError ''Grouper for Dias not 1-dimensional'')
      else if variable \<notin> set (columns df) then Inl (KeyError variable)
      else if 1 < count_list (columns df) variable
        then Inl (ValueError ''repeated column label'')
      else Inr \<lparr>index = sort (remdups (series df ''Dias'')),
                columns = [(variable, ''mean''), (variable, ''std'')],
                vals = map (\<lambda>t. [np_mean (group_cells df variable t),
                                 np_std (group_cells df variable t)])
                         (sort (remdups (series df ''Dias'')))\<rparr>)"

definition droplevel_col_index :: "('i, 'a \<times> 'b, 'c) frame \<Rightarrow> ('i, 'b, 'c) frame" where
  "droplevel_col_index df = \<lparr>index = index df, columns = map snd (columns df), vals = vals df\<rparr>"

definition compute_mean_and_boundaries ::
  "('c list \<Rightarrow> 'c) \<Rightarrow> ('c list \<Rightarrow> 'c) \<Rightarrow> ('i, string, 'c::{linorder,plus,minus}) frame \<Rightarrow> string
     \<Rightarrow> error + ('c, string, 'c) frame" where
  "compute_mean_and_boundaries np_mean np_std df variable =
     (if variable \<notin> set (columns df)
      then Inl (ValueError (''No column named '' @ variable
                   @ ''. Variable name must refer to a dataframe column''))
      else
        (case groupby_agg np_mean np_std df variable of
           Inl e \<Rightarrow> Inl e
         | Inr g \<Rightarrow>
             (let d0 = droplevel_col_index g;
                  d1 = assign ''upper''
                         (map (\<lambda>(m, s). m + s) (zip (series d0 ''mean'') (series d0 ''std''))) d0;
                  d2 = assign ''lower''
                         (map (\<lambda>(m, s). m - s) (zip (series d1 ''mean'') (series d1 ''std''))) d1
              in Inr (add_prefix (variable @ ''_'') d2))))"

text \<open>
  \<open>left.merge(right, how="left", left_index=True, right_index=True, validate="1:1")\<close>:
  \<open>validate\<close> raises \<open>MergeError\<close> unless the keys are unique on both sides. Then every row
  of \<open>left\<close> is followed by the row of \<open>right\<close> with the same key, or by missing cells;
  a label both sides have gets the suffixes \<open>_x\<close> and \<open>_y\<close>.
\<close>

definition merge_on_index ::
  "('i, string, 'c) frame \<Rightarrow> ('i, string, 'c) frame \<Rightarrow> error + ('i, string, 'c option) frame" where
  "merge_on_index left right =
     (if \<not> distinct (index left) \<or> \<not> distinct (index right) then Inl MergeError
      else Inr \<lparr>index = index left,
                columns = map (\<lambda>c. if c \<in> set (columns right) then c @ ''_x'' else c) (columns left)
                          @ map (\<lambda>c. if c \<in> set (columns left) then c @ ''_y'' else c) (columns right),
                vals = map (\<lambda>(i, r). map Some r
                              @ (case map_of (zip (index right) (vals right)) i of
                                   None \<Rightarrow> replicate (length (columns right)) None
                                 | Some r' \<Rightarrow> map Some r'))
                         (zip (index left) (vals left))\<rparr>)"

text \<open>\<open>.reset_index()\<close> of a frame whose index is named \<open>name\<close> (the index of an aggregate
  is named \<open>Dias\<close>, after the grouping column): the index becomes the first column.\<close>

definition reset_index ::
  "string \<Rightarrow> ('c, string, 'c option) frame \<Rightarrow> error + (nat, string, 'c option) frame" where
  "reset_index name df =
     (if name \<in> set (columns df) then Inl (ValueError (''cannot insert '' @ name @ '', already exists''))
      else Inr \<lparr>index = [0..<length (index df)],
                columns = name # columns df,
                vals = map (\<lambda>(i, r). Some i # r) (zip (index df) (vals df))\<rparr>)"

text \<open>Lines 62 to 71 of \<open>prep_tidy_data_to_plot\<close>: the merge of the two aggregates.\<close>

definition merge_aggregates ::
  "('c, string, 'c) frame \<Rightarrow> ('c, string, 'c) frame \<Rightarrow> error + (nat, string, 'c option) frame" where
  "merge_aggregates agg_df_E agg_df_I =
     (case merge_on_index agg_df_E agg_df_I of
        Inl e \<Rightarrow> Inl e
      | Inr m \<Rightarrow> reset_index ''Dias'' m)"

text \<open>\<open>prep_tidy_data_to_plot(E, I, t_space, start_date)\<close>; \<open>start_datetime\<close> is the day number
  of \<open>pd.to_datetime(start_date)\<close>. \<open>timedelta(offset)\<close> raises on a missing offset.\<close>

definition prep_tidy_data_to_plot ::
  "('c list \<Rightarrow> 'c) \<Rightarrow> ('c list \<Rightarrow> 'c) \<Rightarrow> 'c list list \<Rightarrow> 'c list list \<Rightarrow> 'c list \<Rightarrow> 'c
     \<Rightarrow> error + (nat, string, ('c::{linorder,semiring_1,minus}) option) frame" where
  "prep_tidy_data_to_plot np_mean np_std E I t_space start_datetime =
     (case unstack_iterations_ndarray E t_space ''Exposto'' of
        Inl e \<Rightarrow> Inl e
      | Inr df_E \<Rightarrow>
     (case unstack_iterations_ndarray I t_space ''Infectado'' of
        Inl e \<Rightarrow> Inl e
      | Inr df_I \<Rightarrow>
     (case compute_mean_and_boundaries np_mean np_std df_E ''Exposto'' of
        Inl e \<Rightarrow> Inl e
      | Inr agg_df_E \<Rightarrow>
     (case compute_mean_and_boundaries np_mean np_std df_I ''Infectado'' of
        Inl e \<Rightarrow> Inl e
      | Inr agg_df_I \<Rightarrow>
     (case merge_aggregates agg_df_E agg_df_I of
        Inl e \<Rightarrow> Inl e
      | Inr data \<Rightarrow>
          (if None \<in> set (series data ''Dias'')
           then Inl (ValueError ''cannot convert float NaN to integer'')
           else Inr (assign ''Datas''
                  (map (map_option (\<lambda>offset. start_datetime + offset)) (series data ''Dias''))
                  data)))))))"

text \<open>
  \<open>_treat_negative_values_to_plot(df)\<close>. \<open>df\<close> is a reference to a frame that the caller
  shares, so the frames live in a store, a list indexed by address. \<open>df[cols]\<close>,
  \<open>frame <= 0\<close> and \<open>df[mask]\<close> each build a new frame; the assignment writes into the
  frame \<open>df[mask]\<close> built. \<open>is_numeric_dtype\<close> (applied to the column labels), the
  comparison of a cell with 0 (\<open>None\<close> where it raises \<open>TypeError\<close>), the missing value and
  the number 1.0 are parameters.

  \<open>df[cols]\<close> takes, for every label of \<open>cols\<close> in turn, every column of \<open>df\<close> that bears the
  label. When a label of \<open>numeric_columns\<close> is repeated the mask has repeated labels, and
  \<open>df[mask]\<close> cannot align it with \<open>df\<close>: it raises \<open>ValueError\<close>, after the comparison (its
  message depends on the version of pandas; the model's stands in for it).
\<close>

definition select_columns :: "'l list \<Rightarrow> ('i, 'l, 'c) frame \<Rightarrow> ('i, 'l, 'c) frame" where
  "select_columns cols df =
     \<lparr>index = index df,
      columns = concat (map (\<lambda>l. filter (\<lambda>c. c = l) (columns df)) cols),
      vals = map (\<lambda>r. concat (map (\<lambda>l. map snd (filter (\<lambda>(c, x). c = l) (zip (columns df) r)))
                                   cols))
               (vals df)\<rparr>"

definition le_zero_frame ::
  "('c \<Rightarrow> bool option) \<Rightarrow> ('i, 'l, 'c) frame \<Rightarrow> ('i, 'l, bool) frame option" where
  "le_zero_frame le_zero df =
     (if \<exists>r\<in>set (vals df). \<exists>x\<in>set r. le_zero x = None then None
      else Some \<lparr>index = index df, columns = columns df,
                 vals = map (map (\<lambda>x. the (le_zero x))) (vals df)\<rparr>)"

text \<open>\<open>df[mask]\<close> is \<open>df.where(mask)\<close>: a cell is kept where the mask has the column and is
  true there, and is missing elsewhere.\<close>

definition where_mask :: "'c \<Rightarrow> ('i, 'l, 'c) frame \<Rightarrow> ('i, 'l, bool) frame \<Rightarrow> ('i, 'l, 'c) frame" where
  "where_mask nan df msk =
     df\<lparr>vals := map (\<lambda>(r, m). map (\<lambda>(l, x). if map_of (zip (columns msk) m) l = Some True
                                              then x else nan)
                                (zip (columns df) r))
                   (zip (vals df) (vals msk))\<rparr>"

definition setitem_columns :: "'l list \<Rightarrow> 'c \<Rightarrow> ('i, 'l, 'c) frame \<Rightarrow> ('i, 'l, 'c) frame" where
  "setitem_columns cols v df =
     df\<lparr>vals := map (\<lambda>r. map (\<lambda>(l, x). if l \<in> set cols then v else x) (zip (columns df) r))
                   (vals df)\<rparr>"

definition treat_negative_values_to_plot ::
  "(string \<Rightarrow> bool) \<Rightarrow> ('c \<Rightarrow> bool option) \<Rightarrow> 'c \<Rightarrow> 'c
     \<Rightarrow> ('i, string, 'c) frame list \<Rightarrow> nat \<Rightarrow> (error + nat) \<times> ('i, string, 'c) frame list" where
  "treat_negative_values_to_plot is_numeric_dtype le_zero nan one store df =
     (let numeric_columns = filter is_numeric_dtype (columns (store ! df))
      in case le_zero_frame le_zero (select_columns numeric_columns (store ! df)) of
           None \<Rightarrow> (Inl TypeError, store)
         | Some msk \<Rightarrow>
             (if \<not> distinct numeric_columns
              then (Inl (ValueError ''repeated column label''), store)
              else
                (let tmp = length store;
                     store1 = store @ [where_mask nan (store ! df) msk];
                     store2 = store1[tmp := setitem_columns numeric_columns one (store1 ! tmp)]
                 in (Inr df, store2))))"

text \<open>
  The frame \<open>data\<close> of \<open>plot_r0\<close> (lines 218 to 225), which the chart is drawn from;
  \<open>end_date\<close> is the argument \<open>date\<close> and \<open>days\<close> the local \<open>columns\<close>.
  \<open>xs[-n:]\<close> is Python's slice; \<open>pd.date_range(end=date, periods=p)\<close> is the \<open>p\<close> days that
  end with \<open>date\<close>. \<open>.stack(level=0)\<close> goes through the frame row by row and pairs each
  cell with its column label.
\<close>

definition slice_from :: "int \<Rightarrow> 'a list \<Rightarrow> 'a list" where
  "slice_from start xs =
     (if start < 0 then drop (nat (int (length xs) + start)) xs else drop (nat start) xs)"

definition date_range :: "'c \<Rightarrow> nat \<Rightarrow> ('c::ring_1) list" where
  "date_range end_date periods = map (\<lambda>i. end_date - of_nat (periods - 1 - i)) [0..<periods]"

definition plot_r0_data :: "'c list list \<Rightarrow> 'c \<Rightarrow> int \<Rightarrow> (nat, string, 'c::ring_1) frame" where
  "plot_r0_data r0_samples end_date min_days =
     (let r0_samples_cut = slice_from (- min_days) r0_samples;
          days = date_range end_date (ncols r0_samples_cut);
          stacked = concat (map (\<lambda>r. zip days r) r0_samples_cut)
      in \<lparr>index = [0..<length stacked],
          columns = [''Dias'', ''r0''],
          vals = map (\<lambda>(d, v). [d, v]) stacked\<rparr>)"

section \<open>Notions the statements use\<close>

text \<open>
  The dates and the region keys of a frame of case records, in the order of the pivoted
  table, and the sum a cell of the pivoted table holds (0 where the date has no record
  of the region).
\<close>

definition dates_of :: "string \<Rightarrow> row list \<Rightarrow> int list" where
  "dates_of by df = sort (remdups (map fst (group_keys by df)))"

definition regions_of :: "string \<Rightarrow> row list \<Rightarrow> string list" where
  "regions_of by df = sort (remdups (map snd (group_keys by df)))"

definition cell_of :: "string \<Rightarrow> row list \<Rightarrow> int \<Rightarrow> string \<Rightarrow> string \<Rightarrow> int" where
  "cell_of by df d m k = (case at (groupby_sum by df) (d, k) m of None \<Rightarrow> 0 | Some v \<Rightarrow> v)"

text \<open>The records of one region, in the order of the file, and their running totals
  from a start value.\<close>

definition region_rows :: "string \<Rightarrow> string \<Rightarrow> 'a region_scheme list \<Rightarrow> 'a region_scheme list" where
  "region_rows by k df = filter (\<lambda>r. col by r = Some k) df"

fun running_totals :: "int \<Rightarrow> row list \<Rightarrow> row list" where
  "running_totals a [] = []"
| "running_totals a (r # rs) =
     r\<lparr>totalCases := wrap64 (a + newCases r)\<rparr> # running_totals (wrap64 (a + newCases r)) rs"

text \<open>The file that \<open>source\<close> names has at least one data row.\<close>

definition has_data_row :: "world \<Rightarrow> string \<Rightarrow> bool" where
  "has_data_row w source =
     (if source = ''ms'' then ms_csv w \<noteq> []
      else if source = ''wcota'' then wcota_csv w \<noteq> []
      else fiocruz_csv w \<noteq> [])"

text \<open>Small inputs for the examples: a wcota file (two states on different days, the later
  day first, a second record of one state and day, a \<open>TOTAL\<close> row), a fiocruz file of two
  states, a population file.\<close>

definition wcota_example :: world where
  "wcota_example =
     \<lparr>ms_csv = [],
      wcota_csv = [\<lparr>state = Some ''SP'', city = Some ''Santos/SP'', date = 18341,
                     newCases = 100, totalCases = 300\<rparr>,
                   \<lparr>state = Some ''RJ'', city = Some ''Niteroi/RJ'', date = 18340,
                     newCases = 5, totalCases = 24\<rparr>,
                   \<lparr>state = Some ''SP'', city = Some ''Campinas/SP'', date = 18341,
                     newCases = 10, totalCases = 96\<rparr>,
                   \<lparr>state = Some ''TOTAL'', city = Some ''TOTAL'', date = 18341,
                     newCases = 115, totalCases = 420\<rparr>],
      fiocruz_csv = []\<rparr>"

definition initials_example :: "string \<rightharpoonup> string" where
  "initials_example = [''Acre'' \<mapsto> ''AC'', ''Bahia'' \<mapsto> ''BA'']"

definition fiocruz_example :: world where
  "fiocruz_example =
     \<lparr>ms_csv = [], wcota_csv = [],
      fiocruz_csv = [\<lparr>fz_date = 1, fz_name = ''#BR: Acre'', new_cases = 1\<rparr>,
                     \<lparr>fz_date = 2, fz_name = ''#BR: Bahia'', new_cases = 1\<rparr>,
                     \<lparr>fz_date = 3, fz_name = ''#BR: Acre'', new_cases = 1\<rparr>]\<rparr>"

definition ibge_example :: "ibge_row list" where
  "ibge_example =
     [\<lparr>uf = Some ''SP'', ibge_city = Some ''Santos'', ibge_estimated_population = 433311\<rparr>,
      \<lparr>uf = Some ''AC'', ibge_city = Some ''Rio Branco'', ibge_estimated_population = 407319\<rparr>,
      \<lparr>uf = Some ''SP'', ibge_city = Some ''Campinas'', ibge_estimated_population = 1204073\<rparr>]"

text \<open>A long-form table of two iterations and two time steps, and two aggregates of
  integer cells that stand in for \<open>np.mean\<close> and \<open>np.std\<close> in the examples: the mean
  rounded down and the distance between the largest and the smallest cell.\<close>

definition floor_mean :: "int list \<Rightarrow> int" where
  "floor_mean xs = sum_list xs div int (length xs)"

definition spread :: "int list \<Rightarrow> int" where
  "spread xs = Max (set xs) - Min (set xs)"


definition long_example :: "(nat, string, int) frame" where
  "long_example =
     \<lparr>index = [0, 1, 2, 3],
      columns = [''iteration'', ''Dias'', ''Exposto''],
      vals = [[0, 0, 10], [0, 1, 20], [1, 0, 30], [1, 1, 40]]\<rparr>"

section \<open>Failing fast\<close>

text \<open>
  C7. A call whose \<open>source\<close> is not one of \<open>ms\<close>, \<open>wcota\<close>, \<open>fiocruz\<close>, whose \<open>by\<close> is
  not one of \<open>state\<close>, \<open>city\<close>, or that asks for \<open>by = city\<close> from \<open>source = ms\<close>, raises
  \<open>AssertionError\<close>, and no URL has been fetched when it does.
\<close>

theorem load_cases_fails_fast:
  assumes "source \<notin> {''ms'', ''wcota'', ''fiocruz''} \<or> by \<notin> {''state'', ''city''}
           \<or> (by = ''city'' \<and> source = ''ms'')"
  shows "load_cases state2initial w by source = (Inl AssertionError, [])"
  using assms by (auto simp: load_cases_def read_source_def)

theorem load_cases_fails_fast_witness:
  "load_cases Map.empty \<lparr>ms_csv = [], wcota_csv = [], fiocruz_csv = []\<rparr> ''city'' ''ms''
     = (Inl AssertionError, [])"
  using load_cases_fails_fast [of "''ms''" "''city''" Map.empty
      "\<lparr>ms_csv = [], wcota_csv = [], fiocruz_csv = []\<rparr>"]
  by simp

section \<open>The pivoted table\<close>

lemma astype_int_fillna:
  "astype_int (fillna v df) =
     Inr \<lparr>index = index df, columns = columns df,
          vals = map (map (\<lambda>c. case c of None \<Rightarrow> v | Some x \<Rightarrow> x)) (vals df)\<rparr>"
  by (auto simp: astype_int_def fillna_def split: option.splits)

lemma sort_index_sorted:
  assumes "sorted (index df)" "length (vals df) = length (index df)"
  shows "sort_index df = df"
proof -
  have "sort_key fst (zip (index df) (vals df)) = zip (index df) (vals df)"
    using assms by (intro sort_key_id_if_sorted) simp
  then show ?thesis using assms by (simp add: sort_index_def)
qed

text \<open>The returned expression never raises, and this is the table it builds.\<close>

lemma pivot_eq:
  "pivot by df =
     Inr \<lparr>index = dates_of by df,
          columns = map (\<lambda>k. (k, ''newCases'')) (regions_of by df)
                    @ map (\<lambda>k. (k, ''totalCases'')) (regions_of by df),
          vals = map (\<lambda>d. map (cell_of by df d ''newCases'') (regions_of by df)
                           @ map (cell_of by df d ''totalCases'') (regions_of by df))
                   (dates_of by df)\<rparr>"
proof -
  let ?u = "unstack (groupby_sum by df)"
  have "sort_index ?u = ?u"
    by (rule sort_index_sorted) (simp_all add: unstack_def)
  then show ?thesis
    by (simp add: pivot_def astype_int_fillna swaplevel_def)
       (simp add: unstack_def groupby_sum_def dates_of_def regions_of_def cell_of_def
         comp_def)
qed

lemma set_map_filter: "set (List.map_filter f xs) = {y. \<exists>x\<in>set xs. f x = Some y}"
  by (induction xs) (auto split: option.splits)

lemma set_group_keys:
  "set (group_keys by df) = {(date r, k) | r k. r \<in> set df \<and> col by r = Some k}"
  by (auto simp: group_keys_def set_map_filter)

lemma set_regions_of: "set (regions_of by df) = {k. \<exists>r\<in>set df. col by r = Some k}"
  by (auto simp: regions_of_def set_group_keys image_iff)

lemma set_dates_of: "set (dates_of by df) = {date r | r. r \<in> set df \<and> col by r \<noteq> None}"
  by (force simp: dates_of_def set_group_keys image_iff)

lemma map_of_zip_map_same:
  "map_of (zip xs (map f xs)) x = (if x \<in> set xs then Some (f x) else None)"
  by (induction xs) auto

lemma map_of_first_measure:
  assumes "k \<in> set ks"
  shows "map_of (zip (map (\<lambda>k. (k, a)) ks @ map (\<lambda>k. (k, b)) ks) (map f ks @ map g ks)) (k, a)
           = Some (f k)"
proof -
  have "map_of (zip (map (\<lambda>k. (k, a)) ks) (map f ks)) (k, a) = Some (f k)"
    using assms by (induction ks) auto
  then show ?thesis by (simp add: map_add_def)
qed

lemma map_of_second_measure:
  assumes "k \<in> set ks" "a \<noteq> b"
  shows "map_of (zip (map (\<lambda>k. (k, a)) ks @ map (\<lambda>k. (k, b)) ks) (map f ks @ map g ks)) (k, b)
           = Some (g k)"
proof -
  have 1: "map_of (zip (map (\<lambda>k. (k, a)) ks) (map f ks)) (k, b) = None"
    using assms(2) by (induction ks) auto
  have 2: "map_of (zip (map (\<lambda>k. (k, b)) ks) (map g ks)) (k, b) = Some (g k)"
    using assms(1) by (induction ks) auto
  show ?thesis by (simp add: map_add_def 1 2)
qed

lemma pivot_at:
  assumes "pivot by df = Inr t" "d \<in> set (dates_of by df)" "k \<in> set (regions_of by df)"
  shows "at t d (k, ''newCases'') = Some (cell_of by df d ''newCases'' k)"
    and "at t d (k, ''totalCases'') = Some (cell_of by df d ''totalCases'' k)"
  using assms unfolding pivot_eq
  by (auto simp: at_def map_of_zip_map_same map_of_first_measure map_of_second_measure
        simp del: zip_append map_of_append)

lemma pivot_cells:
  assumes "pivot by df = Inr t"
  shows "\<forall>d\<in>set (index t). \<forall>c\<in>set (columns t). \<exists>v. at t d c = Some v"
proof (intro ballI)
  fix d c assume d: "d \<in> set (index t)" and c: "c \<in> set (columns t)"
  from d assms have d': "d \<in> set (dates_of by df)" by (auto simp: pivot_eq)
  from c assms obtain k where "k \<in> set (regions_of by df)"
    "c = (k, ''newCases'') \<or> c = (k, ''totalCases'')" by (auto simp: pivot_eq)
  then show "\<exists>v. at t d c = Some v"
    using pivot_at [OF assms d'] by auto
qed

lemma read_source_valid:
  assumes "source \<in> {''ms'', ''wcota'', ''fiocruz''}" "by \<in> {''state'', ''city''}"
    "\<not> (by = ''city'' \<and> source = ''ms'')" "has_data_row w source"
  shows "\<exists>df url. read_source state2initial w by source = (Inr df, [url])"
  using assms by (auto simp: read_source_def prepare_fiocruz_data_def has_data_row_def)

text \<open>A fiocruz file with no data row: the file is fetched and \<open>TypeError\<close> is raised.\<close>

lemma load_cases_fiocruz_header_only:
  assumes "by \<in> {''state'', ''city''}" "fiocruz_csv w = []"
  shows "load_cases state2initial w by ''fiocruz'' = (Inl TypeError, [FIOCRUZ_URL])"
  using assms by (auto simp: load_cases_def read_source_def prepare_fiocruz_data_def)

text \<open>
  C1, as the code has it. A column label is a pair (outer level, inner level). For every
  valid call on a file with at least one data row the table is returned, and with \<open>df\<close>
  the frame the source's branch built:
  the outer level of the columns is the region keys of \<open>df\<close> and the inner level is
  \<open>newCases\<close> and \<open>totalCases\<close> (\<open>swaplevel\<close> has put the region first); no column label
  repeats; the dates of the index ascend strictly and are the dates of the records that
  have a key; the table has one row of cells per date and one cell per column in each
  row, and every date and column label address a cell, which is an integer: none is
  missing.
\<close>

theorem load_cases_table:
  assumes "source \<in> {''ms'', ''wcota'', ''fiocruz''}" and "by \<in> {''state'', ''city''}"
    and "\<not> (by = ''city'' \<and> source = ''ms'')"
    and "has_data_row w source"
  shows "\<exists>df fetched t.
           read_source state2initial w by source = (Inr df, fetched)
         \<and> load_cases state2initial w by source = (Inr t, fetched)
         \<and> set (columns t) = {k. \<exists>r\<in>set df. col by r = Some k} \<times> {''newCases'', ''totalCases''}
         \<and> distinct (columns t)
         \<and> sorted (index t) \<and> distinct (index t)
         \<and> set (index t) = {date r | r. r \<in> set df \<and> col by r \<noteq> None}
         \<and> length (vals t) = length (index t)
         \<and> (\<forall>cells\<in>set (vals t). length cells = length (columns t))
         \<and> (\<forall>d\<in>set (index t). \<forall>c\<in>set (columns t). \<exists>v. at t d c = Some v)"
proof -
  obtain df url where df: "read_source state2initial w by source = (Inr df, [url])"
    using read_source_valid [OF assms] by blast
  let ?t = "\<lparr>index = dates_of by df,
          columns = map (\<lambda>k. (k, ''newCases'')) (regions_of by df)
                    @ map (\<lambda>k. (k, ''totalCases'')) (regions_of by df),
          vals = map (\<lambda>d. map (cell_of by df d ''newCases'') (regions_of by df)
                           @ map (cell_of by df d ''totalCases'') (regions_of by df))
                   (dates_of by df)\<rparr>"
  have 1: "load_cases state2initial w by source = (Inr ?t, [url])"
    using assms(1,2) df by (simp add: load_cases_def pivot_eq)
  have 2: "set (columns ?t) = {k. \<exists>r\<in>set df. col by r = Some k} \<times> {''newCases'', ''totalCases''}"
    by (auto simp: set_regions_of)
  have 3: "distinct (columns ?t)"
    by (auto simp: distinct_map inj_on_def regions_of_def)
  have 4: "sorted (index ?t)" "distinct (index ?t)"
    by (simp_all add: dates_of_def)
  have 5: "set (index ?t) = {date r | r. r \<in> set df \<and> col by r \<noteq> None}"
    by (simp add: set_dates_of)
  have 6: "length (vals ?t) = length (index ?t)"
    "\<forall>cells\<in>set (vals ?t). length cells = length (columns ?t)"
    by auto
  have 7: "\<forall>d\<in>set (index ?t). \<forall>c\<in>set (columns ?t). \<exists>v. at ?t d c = Some v"
    by (rule pivot_cells [of "by" df]) (simp add: pivot_eq)
  show ?thesis using df 1 2 3 4 5 6 7 by blast
qed

theorem load_cases_table_witness:
  "\<exists>df fetched t.
      read_source Map.empty wcota_example ''state'' ''wcota'' = (Inr df, fetched)
    \<and> load_cases Map.empty wcota_example ''state'' ''wcota'' = (Inr t, fetched)
    \<and> set (columns t) = {k. \<exists>r\<in>set df. col ''state'' r = Some k} \<times> {''newCases'', ''totalCases''}
    \<and> distinct (columns t)
    \<and> sorted (index t) \<and> distinct (index t)
    \<and> set (index t) = {date r | r. r \<in> set df \<and> col ''state'' r \<noteq> None}
    \<and> length (vals t) = length (index t)
    \<and> (\<forall>cells\<in>set (vals t). length cells = length (columns t))
    \<and> (\<forall>d\<in>set (index t). \<forall>c\<in>set (columns t). \<exists>v. at t d c = Some v)"
  by (rule load_cases_table) (simp_all add: has_data_row_def wcota_example_def)

text \<open>
  C1 as the spec words it fails: for the example file the outer level of the columns is
  the states \<open>RJ\<close> and \<open>SP\<close>, not \<open>newCases\<close> and \<open>totalCases\<close>; the two measures are the
  inner level. (The table also shows the \<open>TOTAL\<close> row left out, the two records of \<open>SP\<close>
  on day 18341 summed, the days in ascending order and the cells without a record
  filled with 0.)
\<close>

theorem load_cases_outer_level_counterexample:
  "fst (load_cases Map.empty wcota_example ''state'' ''wcota'')
     = Inr \<lparr>index = [18340, 18341],
            columns = [(''RJ'', ''newCases''), (''SP'', ''newCases''),
                       (''RJ'', ''totalCases''), (''SP'', ''totalCases'')],
            vals = [[5, 0, 24, 0], [0, 110, 0, 396]]\<rparr>
   \<and> map fst (columns \<lparr>index = [18340, 18341 :: int],
                        columns = [(''RJ'', ''newCases''), (''SP'', ''newCases''),
                                   (''RJ'', ''totalCases''), (''SP'', ''totalCases'')],
                        vals = [[5, 0, 24, 0], [0, 110, 0, 396 :: int]]\<rparr>)
       = [''RJ'', ''SP'', ''RJ'', ''SP'']
   \<and> set [''RJ'', ''SP'', ''RJ'', ''SP''] \<noteq> {''newCases'', ''totalCases''}"
  unfolding wcota_example_def by code_simp

section \<open>The population series\<close>

lemma wrap64_id: "- (2 ^ 63) \<le> x \<Longrightarrow> x < 2 ^ 63 \<Longrightarrow> wrap64 x = x"
  by (simp add: wrap64_def)

lemma wrap64_idem: "wrap64 (wrap64 x) = wrap64 x"
  by (simp add: wrap64_def)









text \<open>The two series of the example file: the populations of the two cities of \<open>SP\<close> are
  summed under \<open>state\<close>, and the keys are in ascending order.\<close>

lemma load_population_state_example:
  "load_population ibge_example ''state''
     = Inr \<lparr>index = [''AC'', ''SP''], columns = [''estimated_population''],
            vals = [[407319], [1637384]]\<rparr>"
  by code_simp

lemma load_population_city_example:
  "load_population ibge_example ''city''
     = Inr \<lparr>index = [''Campinas/SP'', ''Rio Branco/AC'', ''Santos/SP''],
            columns = [''estimated_population''],
            vals = [[1204073], [407319], [433311]]\<rparr>"
  by code_simp

section \<open>Running totals of the fiocruz source\<close>

lemma col_totalCases_update [simp]: "col by (r\<lparr>totalCases := t\<rparr>) = col by r"
  by (simp add: col_def)

text \<open>The running totals of one group do not depend on the rows of the other groups.\<close>

lemma group_cumsum_region:
  "filter (\<lambda>r. col by r = Some k)
     (map (\<lambda>(r, t). r\<lparr>totalCases := (case t of None \<Rightarrow> 0 | Some v \<Rightarrow> v)\<rparr>)
        (zip df (group_cumsum acc (map (\<lambda>r. (col by r, newCases r)) df))))
   = running_totals (case acc k of None \<Rightarrow> 0 | Some a \<Rightarrow> a) (filter (\<lambda>r. col by r = Some k) df)"
proof (induction df arbitrary: acc)
  case Nil
  then show ?case by simp
next
  case (Cons r df)
  show ?case
  proof (cases "col by r")
    case None
    then show ?thesis by (simp add: Cons.IH)
  next
    case (Some k')
    then show ?thesis by (auto simp: Let_def Cons.IH)
  qed
qed

lemma assign_totalCases_region:
  "region_rows by k (assign_totalCases by df) = running_totals 0 (region_rows by k df)"
  unfolding region_rows_def assign_totalCases_def
  using group_cumsum_region [of "by" k df Map.empty] by simp

lemma date_running_totals [simp]: "map date (running_totals a rs) = map date rs"
  by (induction rs arbitrary: a) auto

lemma running_totals_in_range:
  "r \<in> set (running_totals a rs) \<Longrightarrow> wrap64 (totalCases r) = totalCases r"
  by (induction rs arbitrary: a) (auto simp: wrap64_idem)

lemma running_totals_mono:
  assumes "sorted_wrt (<) (map date rs)" "\<forall>r\<in>set rs. 0 \<le> newCases r"
    "0 \<le> a" "a + sum_list (map newCases rs) < 2 ^ 63"
  shows "(\<forall>r\<in>set (running_totals a rs). a \<le> totalCases r) \<and>
         (\<forall>r1\<in>set (running_totals a rs). \<forall>r2\<in>set (running_totals a rs).
             date r1 \<le> date r2 \<longrightarrow> totalCases r1 \<le> totalCases r2)"
  using assms
proof (induction rs arbitrary: a)
  case Nil
  then show ?case by simp
next
  case (Cons r rs)
  let ?b = "a + newCases r"
  have nn: "0 \<le> newCases r" using Cons.prems(2) by simp
  have "0 \<le> sum_list (map newCases rs)"
    using Cons.prems(2) by (intro sum_list_nonneg) auto
  then have b: "0 \<le> ?b" "?b < 2 ^ 63" "a \<le> ?b"
    using Cons.prems(3,4) nn by auto
  then have w: "wrap64 ?b = ?b" by (intro wrap64_id) auto
  have IH: "(\<forall>x\<in>set (running_totals ?b rs). ?b \<le> totalCases x) \<and>
         (\<forall>r1\<in>set (running_totals ?b rs). \<forall>r2\<in>set (running_totals ?b rs).
             date r1 \<le> date r2 \<longrightarrow> totalCases r1 \<le> totalCases r2)"
    using Cons.prems b by (intro Cons.IH) (auto simp: algebra_simps)
  have later: "\<forall>x\<in>set (running_totals ?b rs). date r < date x"
  proof
    fix x assume "x \<in> set (running_totals ?b rs)"
    then have "date x \<in> set (map date (running_totals ?b rs))"
      by (simp del: date_running_totals)
    then have "date x \<in> set (map date rs)" by simp
    then show "date r < date x" using Cons.prems(1) by auto
  qed
  show ?case using IH later b by (auto simp: w)
qed

lemma cell_of_totalCases:
  assumes "(d, k) \<in> set (group_keys by df)"
  shows "cell_of by df d ''totalCases'' k
         = sum64 (map totalCases (filter (\<lambda>r. date r = d \<and> col by r = Some k) df))"
  using assms by (simp add: cell_of_def at_def groupby_sum_def map_of_zip_map_same)

lemma filter_distinct_key:
  assumes "distinct (map f xs)" "x \<in> set xs"
  shows "filter (\<lambda>y. f y = f x) xs = [x]"
  using assms
proof (induction xs)
  case Nil
  then show ?case by simp
next
  case (Cons y ys)
  show ?case
  proof (cases "x = y")
    case True
    have "f y \<notin> f ` set ys" using Cons.prems(1) by simp
    then have "\<forall>z\<in>set ys. f z \<noteq> f y" by (metis imageI)
    then have "filter (\<lambda>z. f z = f y) ys = []"
      by (simp add: filter_empty_conv)
    with True show ?thesis by simp
  next
    case False
    then have "x \<in> set ys" using Cons.prems(2) by simp
    moreover from this have "f y \<noteq> f x" using Cons.prems(1) by auto
    ultimately show ?thesis using Cons by simp
  qed
qed

lemma region_single_row:
  assumes "distinct (map date (region_rows by k df))" "r \<in> set (region_rows by k df)"
  shows "filter (\<lambda>r'. date r' = date r \<and> col by r' = Some k) df = [r]"
proof -
  have "filter (\<lambda>r'. date r' = date r \<and> col by r' = Some k) df
        = filter (\<lambda>r'. date r' = date r) (region_rows by k df)"
    by (simp add: region_rows_def conj_commute)
  then show ?thesis using filter_distinct_key [OF assms] by simp
qed

lemma prepare_fiocruz_data_by:
  "prepare_fiocruz_data s2i rows by = Some df \<Longrightarrow> by = ''state'' \<or> by = ''city''"
  by (auto simp: prepare_fiocruz_data_def split: if_splits)

lemma prepare_fiocruz_data_Nil:
  "prepare_fiocruz_data s2i [] by = Some df \<Longrightarrow> df = []"
  by (auto simp: prepare_fiocruz_data_def split: if_splits)

lemma load_cases_fiocruz:
  assumes "prepare_fiocruz_data s2i (fiocruz_csv w) by = Some df" "df \<noteq> []"
  shows "load_cases s2i w by ''fiocruz'' = (pivot by (assign_totalCases by df), [FIOCRUZ_URL])"
proof -
  have "fiocruz_csv w \<noteq> []"
    using assms prepare_fiocruz_data_Nil by fastforce
  then show ?thesis
    using assms(1) prepare_fiocruz_data_by [OF assms(1)]
    by (auto simp: load_cases_def read_source_def)
qed

text \<open>On a date of one of its records, a region's cell is that record's running total.\<close>

lemma fiocruz_region_total:
  assumes "pivot by (assign_totalCases by df) = Inr t"
    and "sorted_wrt (<) (map date (region_rows by k df))"
    and "r \<in> set (region_rows by k (assign_totalCases by df))"
  shows "at t (date r) (k, ''totalCases'') = Some (totalCases r)"
proof -
  let ?df = "assign_totalCases by df"
  have rt: "region_rows by k ?df = running_totals 0 (region_rows by k df)"
    by (rule assign_totalCases_region)
  have "map date (region_rows by k ?df) = map date (region_rows by k df)"
    by (simp add: rt)
  then have dist: "distinct (map date (region_rows by k ?df))"
    using assms(2) strict_sorted_iff by auto
  have r: "r \<in> set ?df" "col by r = Some k"
    using assms(3) by (auto simp: region_rows_def)
  then have key: "(date r, k) \<in> set (group_keys by ?df)"
    by (auto simp: set_group_keys)
  have d: "date r \<in> set (dates_of by ?df)"
    using r by (auto simp: set_dates_of)
  have k: "k \<in> set (regions_of by ?df)"
    using r by (auto simp: set_regions_of)
  have "cell_of by ?df (date r) ''totalCases'' k = sum64 [totalCases r]"
    using cell_of_totalCases [OF key] region_single_row [OF dist assms(3)] by simp
  also have "\<dots> = totalCases r"
    using running_totals_in_range [of r 0 "region_rows by k df"] assms(3)
    by (simp add: sum64_def rt)
  finally show ?thesis using pivot_at(2) [OF assms(1) d k] by simp
qed

text \<open>
  C5, as the code has it. \<open>df\<close> is the frame \<open>prepare_fiocruz_data\<close> returns. For a region
  \<open>k\<close> whose records stand in the file in strictly ascending order of date, with new cases
  that are not negative and a total below \<open>2^53\<close> (which an \<open>int64\<close> and a \<open>float64\<close> column
  both hold exactly), \<open>totalCases\<close> does not decrease from a date \<open>d1\<close> to a later date
  \<open>d2\<close>, both dates of records of the region.
\<close>

theorem fiocruz_totalCases_monotone:
  assumes "prepare_fiocruz_data state2initial (fiocruz_csv w) by = Some df"
    and "sorted_wrt (<) (map date (region_rows by k df))"
    and "\<forall>r\<in>set (region_rows by k df). 0 \<le> newCases r"
    and "sum_list (map newCases (region_rows by k df)) < 2 ^ 53"
    and "d1 \<in> date ` set (region_rows by k df)"
    and "d2 \<in> date ` set (region_rows by k df)"
    and "d1 \<le> d2"
  shows "\<exists>t v1 v2. fst (load_cases state2initial w by ''fiocruz'') = Inr t
            \<and> at t d1 (k, ''totalCases'') = Some v1
            \<and> at t d2 (k, ''totalCases'') = Some v2
            \<and> v1 \<le> v2"
proof -
  let ?df = "assign_totalCases by df"
  obtain t where t: "pivot by ?df = Inr t" by (simp add: pivot_eq)
  have rt: "region_rows by k ?df = running_totals 0 (region_rows by k df)"
    by (rule assign_totalCases_region)
  have dates: "date ` set (region_rows by k ?df) = date ` set (region_rows by k df)"
    using arg_cong [OF date_running_totals [of 0 "region_rows by k df"], of set]
    by (simp add: rt del: date_running_totals)
  have "d1 \<in> date ` set (region_rows by k ?df)" "d2 \<in> date ` set (region_rows by k ?df)"
    using assms(5,6) by (simp_all only: dates)
  then obtain r1 r2 where r1: "r1 \<in> set (region_rows by k ?df)" "date r1 = d1"
    and r2: "r2 \<in> set (region_rows by k ?df)" "date r2 = d2"
    by blast
  have "sum_list (map newCases (region_rows by k df)) < 2 ^ 63"
    using assms(4) by simp
  then have "totalCases r1 \<le> totalCases r2"
    using running_totals_mono [OF assms(2,3), of 0] assms(7) r1 r2 by (simp add: rt)
  moreover have "at t d1 (k, ''totalCases'') = Some (totalCases r1)"
    using fiocruz_region_total [OF t assms(2) r1(1)] r1(2) by simp
  moreover have "at t d2 (k, ''totalCases'') = Some (totalCases r2)"
    using fiocruz_region_total [OF t assms(2) r2(1)] r2(2) by simp
  moreover have "df \<noteq> []"
    using assms(5) by (auto simp: region_rows_def)
  ultimately show ?thesis
    using t by (simp add: load_cases_fiocruz [OF assms(1)])
qed

theorem fiocruz_totalCases_monotone_witness:
  "\<exists>t v1 v2. fst (load_cases initials_example fiocruz_example ''state'' ''fiocruz'') = Inr t
      \<and> at t 1 (''AC'', ''totalCases'') = Some v1
      \<and> at t 3 (''AC'', ''totalCases'') = Some v2
      \<and> v1 \<le> v2"
proof (rule fiocruz_totalCases_monotone
    [where df = "[\<lparr>state = Some ''AC'', city = None, date = 1, newCases = 1, totalCases = 0\<rparr>,
                  \<lparr>state = Some ''BA'', city = None, date = 2, newCases = 1, totalCases = 0\<rparr>,
                  \<lparr>state = Some ''AC'', city = None, date = 3, newCases = 1, totalCases = 0\<rparr>]"])
  show "prepare_fiocruz_data initials_example (fiocruz_csv fiocruz_example) ''state''
        = Some [\<lparr>state = Some ''AC'', city = None, date = 1, newCases = 1, totalCases = 0\<rparr>,
                \<lparr>state = Some ''BA'', city = None, date = 2, newCases = 1, totalCases = 0\<rparr>,
                \<lparr>state = Some ''AC'', city = None, date = 3, newCases = 1, totalCases = 0\<rparr>]"
    by (simp add: prepare_fiocruz_data_def fiocruz_example_def initials_example_def
          startswith_def replace_dict_def)
qed (simp_all add: region_rows_def col_def)

text \<open>
  C5 as the spec words it fails on a file whose counts are positive and whose dates
  ascend: Acre has records on days 1 and 3, Bahia on day 2. On day 2 the table fills
  Acre's missing total with 0, below the 1 of day 1.
\<close>

theorem fiocruz_totalCases_counterexample:
  "fst (load_cases initials_example fiocruz_example ''state'' ''fiocruz'')
     = Inr \<lparr>index = [1, 2, 3],
            columns = [(''AC'', ''newCases''), (''BA'', ''newCases''),
                       (''AC'', ''totalCases''), (''BA'', ''totalCases'')],
            vals = [[1, 0, 1, 0], [0, 1, 0, 1], [1, 0, 2, 0]]\<rparr>
   \<and> at \<lparr>index = [1, 2, 3 :: int],
          columns = [(''AC'', ''newCases''), (''BA'', ''newCases''),
                     (''AC'', ''totalCases''), (''BA'', ''totalCases'')],
          vals = [[1, 0, 1, 0], [0, 1, 0, 1], [1, 0, 2, 0 :: int]]\<rparr> 1 (''AC'', ''totalCases'') = Some 1
   \<and> at \<lparr>index = [1, 2, 3 :: int],
          columns = [(''AC'', ''newCases''), (''BA'', ''newCases''),
                     (''AC'', ''totalCases''), (''BA'', ''totalCases'')],
          vals = [[1, 0, 1, 0], [0, 1, 0, 1], [1, 0, 2, 0 :: int]]\<rparr> 2 (''AC'', ''totalCases'') = Some 0"
  unfolding fiocruz_example_def initials_example_def by code_simp

section \<open>Aggregation over the iterations\<close>

text \<open>
  C8. \<open>compute_mean_and_boundaries\<close> raises the \<open>ValueError\<close> of its first statement, with
  the message that names the variable, exactly when \<open>variable\<close> is not a column of \<open>df\<close>.
\<close>

theorem compute_mean_and_boundaries_raises:
  "compute_mean_and_boundaries np_mean np_std df variable
     = Inl (ValueError (''No column named '' @ variable
              @ ''. Variable name must refer to a dataframe column''))
   \<longleftrightarrow> variable \<notin> set (columns df)"
  by (auto simp: compute_mean_and_boundaries_def groupby_agg_def Let_def split: sum.splits)

lemma pos_simps [simp]:
  "pos l (l # cs) = 0"
  "l \<noteq> c \<Longrightarrow> pos l (c # cs) = Suc (pos l cs)"
  by (simp_all add: pos_def)

lemma count_list_distinct:
  "distinct xs \<Longrightarrow> x \<in> set xs \<Longrightarrow> count_list xs x = 1"
  by (induction xs) (auto simp: count_list_0_iff)

lemma map2_same:
  "map (\<lambda>(a, b). h a b) (zip (map f xs) (map g xs)) = map (\<lambda>x. h (f x) (g x)) xs"
  by (induction xs) auto

lemma compute_mean_and_boundaries_eq:
  assumes "variable \<in> set (columns df)" "''Dias'' \<in> set (columns df)"
    "distinct (columns df)" "variable \<noteq> ''Dias''"
  shows "compute_mean_and_boundaries np_mean np_std df variable =
     Inr \<lparr>index = sort (remdups (series df ''Dias'')),
          columns = [variable @ ''_mean'', variable @ ''_std'',
                     variable @ ''_upper'', variable @ ''_lower''],
          vals = map (\<lambda>t. [np_mean (group_cells df variable t),
                           np_std (group_cells df variable t),
                           np_mean (group_cells df variable t) + np_std (group_cells df variable t),
                           np_mean (group_cells df variable t) - np_std (group_cells df variable t)])
                   (sort (remdups (series df ''Dias'')))\<rparr>"
proof -
  have c: "count_list (columns df) ''Dias'' = 1" "count_list (columns df) variable = 1"
    using assms by (simp_all add: count_list_distinct)
  show ?thesis
    using assms c
    by (simp add: compute_mean_and_boundaries_def groupby_agg_def droplevel_col_index_def
          assign_def add_prefix_def series_def Let_def comp_def map2_same)
qed

text \<open>
  C6. For a frame with distinct column labels that has the columns \<open>Dias\<close> and
  \<open>variable\<close>, the aggregate is returned; its four columns are \<open>variable\<close> followed by
  \<open>_mean\<close>, \<open>_std\<close>, \<open>_upper\<close>, \<open>_lower\<close>; it has one row per time step of \<open>df\<close>; and in the
  row of every time step the mean and the standard deviation are the two aggregates of
  the step's cells, upper is exactly mean + std and lower is exactly mean - std.
\<close>

theorem compute_mean_and_boundaries_bounds:
  assumes "variable \<in> set (columns df)" and "''Dias'' \<in> set (columns df)"
    and "distinct (columns df)" and "variable \<noteq> ''Dias''"
  shows "\<exists>out. compute_mean_and_boundaries np_mean np_std df variable = Inr out
         \<and> columns out = [variable @ ''_mean'', variable @ ''_std'',
                           variable @ ''_upper'', variable @ ''_lower'']
         \<and> (\<forall>c\<in>set (columns out). \<exists>s. c = variable @ ''_'' @ s)
         \<and> set (index out) = set (series df ''Dias'')
         \<and> (\<forall>t\<in>set (index out). \<exists>m s.
               m = np_mean (group_cells df variable t)
             \<and> s = np_std (group_cells df variable t)
             \<and> at out t (variable @ ''_mean'') = Some m
             \<and> at out t (variable @ ''_std'') = Some s
             \<and> at out t (variable @ ''_upper'') = Some (m + s)
             \<and> at out t (variable @ ''_lower'') = Some (m - s))"
  unfolding compute_mean_and_boundaries_eq [OF assms]
  by (simp add: at_def map_of_zip_map_same)

theorem compute_mean_and_boundaries_bounds_witness:
  "\<exists>out. compute_mean_and_boundaries
            floor_mean spread
            long_example ''Exposto'' = Inr out
     \<and> columns out = [''Exposto'' @ ''_mean'', ''Exposto'' @ ''_std'',
                       ''Exposto'' @ ''_upper'', ''Exposto'' @ ''_lower'']
     \<and> (\<forall>c\<in>set (columns out). \<exists>s. c = ''Exposto'' @ ''_'' @ s)
     \<and> set (index out) = set (series long_example ''Dias'')
     \<and> (\<forall>t\<in>set (index out). \<exists>m s.
           m = floor_mean (group_cells long_example ''Exposto'' t)
         \<and> s = spread (group_cells long_example ''Exposto'' t)
         \<and> at out t (''Exposto'' @ ''_mean'') = Some m
         \<and> at out t (''Exposto'' @ ''_std'') = Some s
         \<and> at out t (''Exposto'' @ ''_upper'') = Some (m + s)
         \<and> at out t (''Exposto'' @ ''_lower'') = Some (m - s))"
  by (rule compute_mean_and_boundaries_bounds) (simp_all add: long_example_def)

theorem compute_mean_and_boundaries_raises_witness:
  "compute_mean_and_boundaries
      floor_mean spread
      long_example ''Infectado''
     = Inl (ValueError (''No column named '' @ ''Infectado''
              @ ''. Variable name must refer to a dataframe column''))"
  using compute_mean_and_boundaries_raises [of _ _ long_example "''Infectado''"]
  by (simp add: long_example_def)

section \<open>The long form of an array\<close>

lemma nth_concat_blocks:
  assumes "\<forall>x\<in>set xs. length (f x) = n" "j < length xs" "i < n"
  shows "concat (map f xs) ! (j * n + i) = f (xs ! j) ! i"
  using assms
proof (induction xs arbitrary: j)
  case Nil
  then show ?case by simp
next
  case (Cons x xs)
  show ?case
  proof (cases j)
    case 0
    then show ?thesis using Cons.prems by (simp add: nth_append)
  next
    case (Suc j')
    have "Suc j' * n + i = length (f x) + (j' * n + i)"
      using Cons.prems(1) by simp
    then show ?thesis
      using Cons.IH [of j'] Cons.prems Suc by (simp add: nth_append)
  qed
qed

lemma length_concat_blocks:
  assumes "\<forall>x\<in>set xs. length (f x) = n"
  shows "length (concat (map f xs)) = length xs * n"
  using assms by (induction xs) auto

lemma ncols_rect: "arr \<noteq> [] \<Longrightarrow> \<forall>r\<in>set arr. length r = n \<Longrightarrow> ncols arr = n"
  by (cases arr) (auto simp: ncols_def)

text \<open>
  C3, as the code has it: the ROWS of the array are the time steps (as many as
  \<open>t_space\<close> has labels, \<open>T\<close>) and its COLUMNS are the iterations (\<open>N\<close>). Then the long form
  is returned, it has exactly \<open>N * T\<close> rows, numbered from 0, and the row \<open>j * T + i\<close>
  holds iteration \<open>j\<close>, the label of time step \<open>i\<close> and the cell of row \<open>i\<close> and column \<open>j\<close>
  of the array.
\<close>

theorem unstack_iterations_ndarray_long:
  assumes "length arr = T" and "\<forall>r\<in>set arr. length r = N" and "length t_space = T"
  shows "\<exists>df. unstack_iterations_ndarray arr t_space name = Inr df
         \<and> columns df = [''iteration'', ''Dias'', name]
         \<and> index df = [0..<N * T]
         \<and> length (vals df) = N * T
         \<and> (\<forall>j<N. \<forall>i<T. vals df ! (j * T + i) = [of_nat j, t_space ! i, arr ! i ! j])"
proof (cases "arr = []")
  case True
  then show ?thesis using assms
    by (simp add: unstack_iterations_ndarray_def DataFrame_def reset_index_rename_def
          unstack_frame_def ncols_def)
next
  case False
  then have nc: "ncols arr = N" using assms(2) by (rule ncols_rect)
  let ?f = "\<lambda>j. map (\<lambda>(t, r). ((j, t), r ! j)) (zip t_space arr)"
  let ?s = "concat (map ?f [0..<N])"
  have len: "\<forall>j\<in>set [0..<N]. length (?f j) = T" using assms by simp
  have l: "length ?s = N * T" using length_concat_blocks [OF len] by simp
  have eq: "unstack_iterations_ndarray arr t_space name = Inr (reset_index_rename name ?s)"
    using assms nc
    by (simp add: unstack_iterations_ndarray_def DataFrame_def unstack_frame_def)
  have cell: "map (\<lambda>((j, t), v). [of_nat j, t, v]) ?s ! (j * T + i)
                = [of_nat j, t_space ! i, arr ! i ! j]" if "j < N" "i < T" for j i
  proof -
    have "j * T + i < length ?s" 
    proof -
      have "j * T + i < j * T + T" using that by simp
      also have "\<dots> = Suc j * T" by simp
      also have "\<dots> \<le> N * T" using that(1) by (intro mult_le_mono1) simp
      finally show ?thesis using l by simp
    qed
    moreover have "?s ! (j * T + i) = ?f ([0..<N] ! j) ! i"
      using that by (intro nth_concat_blocks [OF len]) simp_all
    ultimately show ?thesis using that assms by simp
  qed
  show ?thesis
    unfolding eq using l cell by (simp add: reset_index_rename_def)
qed

theorem unstack_iterations_ndarray_long_witness:
  "\<exists>df. unstack_iterations_ndarray [[1, 2, 3], [4, 5, 6 :: int]] [10, 20] ''Exposto'' = Inr df
     \<and> columns df = [''iteration'', ''Dias'', ''Exposto'']
     \<and> index df = [0..<3 * 2]
     \<and> length (vals df) = 3 * 2
     \<and> (\<forall>j<3. \<forall>i<2. vals df ! (j * 2 + i)
            = [of_nat j, [10, 20] ! i, [[1, 2, 3], [4, 5, 6]] ! i ! j])"
  by (rule unstack_iterations_ndarray_long) simp_all

text \<open>
  C3 as the spec words it fails: an array of \<open>N = 2\<close> rows, one per iteration, and \<open>T = 3\<close>
  columns, one per time step, with the three labels of the time steps, is refused.
\<close>

theorem unstack_iterations_ndarray_counterexample:
  "unstack_iterations_ndarray [[1, 2, 3], [4, 5, 6 :: int]] [0, 1, 2] ''Exposto''
     = Inl (ValueError ''Shape of passed values does not match the indices'')"
  by (simp add: unstack_iterations_ndarray_def DataFrame_def)

section \<open>The merge of the two aggregates\<close>

lemma zip_map_same: "zip xs (map f xs) = map (\<lambda>x. (x, f x)) xs"
  by (induction xs) auto

lemma map_zip_map_zip:
  "length xs = length ys \<Longrightarrow>
     map (\<lambda>(i, r). g i r) (zip xs (map (\<lambda>(i, c). f i c) (zip xs ys)))
       = map (\<lambda>(t, c). g t (f t c)) (zip xs ys)"
  by (induction xs ys rule: list_induct2) auto

lemma unstack_iterations_ndarray_ok:
  assumes "length arr = length t_space"
  shows "\<exists>df. unstack_iterations_ndarray arr t_space name = Inr df
           \<and> columns df = [''iteration'', ''Dias'', name]"
  using assms
  by (simp add: unstack_iterations_ndarray_def DataFrame_def reset_index_rename_def)

text \<open>The aggregate of a long-form table, for a name other than the two fixed labels.\<close>

lemma aggregate_of_long:
  assumes "columns df = [''iteration'', ''Dias'', name]" "name \<noteq> ''iteration''" "name \<noteq> ''Dias''"
  shows "\<exists>agg. compute_mean_and_boundaries np_mean np_std df name = Inr agg
           \<and> columns agg = [name @ ''_mean'', name @ ''_std'', name @ ''_upper'', name @ ''_lower'']
           \<and> sorted (index agg) \<and> distinct (index agg)
           \<and> length (vals agg) = length (index agg)"
proof -
  have "name \<in> set (columns df)" "''Dias'' \<in> set (columns df)" "distinct (columns df)"
    using assms by auto
  from compute_mean_and_boundaries_eq [OF this assms(3)] show ?thesis by simp
qed

lemma merge_aggregates_eq:
  assumes "distinct (index l)" "distinct (index r)" "length (vals l) = length (index l)"
    and "columns l = [''Exposto_mean'', ''Exposto_std'', ''Exposto_upper'', ''Exposto_lower'']"
    and "columns r = [''Infectado_mean'', ''Infectado_std'', ''Infectado_upper'', ''Infectado_lower'']"
  shows "merge_aggregates l r =
     Inr \<lparr>index = [0..<length (index l)],
          columns = ''Dias'' # columns l @ columns r,
          vals = map (\<lambda>(t, cells). Some t # map Some cells
                        @ (case map_of (zip (index r) (vals r)) t of
                             None \<Rightarrow> replicate (length (columns r)) None
                           | Some cells' \<Rightarrow> map Some cells'))
                   (zip (index l) (vals l))\<rparr>"
  using assms
  by (simp add: merge_aggregates_def merge_on_index_def reset_index_def map_zip_map_zip)

lemma merge_aggregates_MergeError:
  "merge_aggregates l r = Inl MergeError \<longleftrightarrow> \<not> (distinct (index l) \<and> distinct (index r))"
  by (auto simp: merge_aggregates_def merge_on_index_def reset_index_def)

lemma zip_map_map_same: "zip (map f xs) (map g xs) = map (\<lambda>x. (f x, g x)) xs"
  by (induction xs) auto

text \<open>
  C9. The merge raises \<open>MergeError\<close> exactly when the time steps are not unique on one of
  the two sides. For arrays with one row per label of \<open>t_space\<close> the function returns
  \<open>data\<close>: its columns are \<open>Dias\<close>, the columns of the two aggregates and \<open>Datas\<close>; the time
  steps of the two aggregates are unique; \<open>data\<close> has one row per time step \<open>t\<close> of the
  exposed aggregate, which holds \<open>t\<close>, the exposed aggregates of \<open>t\<close>, the infected
  aggregates of the same \<open>t\<close> (missing cells if there are none) and the date
  \<open>start_datetime + t\<close>.
\<close>

theorem prep_tidy_data_to_plot_merge:
  assumes "length E = length t_space" and "length I = length t_space"
  shows "(\<forall>l r :: ('c::{linorder,semiring_1,minus}, string, 'c) frame.
            merge_aggregates l r = Inl MergeError
              \<longleftrightarrow> \<not> (distinct (index l) \<and> distinct (index r)))
       \<and> (\<exists>df_E df_I agg_df_E agg_df_I data.
            unstack_iterations_ndarray E t_space ''Exposto'' = Inr df_E
          \<and> unstack_iterations_ndarray I t_space ''Infectado'' = Inr df_I
          \<and> compute_mean_and_boundaries np_mean np_std df_E ''Exposto'' = Inr agg_df_E
          \<and> compute_mean_and_boundaries np_mean np_std df_I ''Infectado'' = Inr agg_df_I
          \<and> prep_tidy_data_to_plot np_mean np_std E I t_space (start_datetime :: 'c) = Inr data
          \<and> distinct (index agg_df_E) \<and> distinct (index agg_df_I)
          \<and> columns data = ''Dias'' # columns agg_df_E @ columns agg_df_I @ [''Datas'']
          \<and> vals data =
               map (\<lambda>(t, cells). Some t # map Some cells
                      @ (case map_of (zip (index agg_df_I) (vals agg_df_I)) t of
                           None \<Rightarrow> replicate (length (columns agg_df_I)) None
                         | Some cells' \<Rightarrow> map Some cells')
                      @ [Some (start_datetime + t)])
                   (zip (index agg_df_E) (vals agg_df_E)))"
proof -
  obtain df_E where df_E: "unstack_iterations_ndarray E t_space ''Exposto'' = Inr df_E"
      "columns df_E = [''iteration'', ''Dias'', ''Exposto'']"
    using unstack_iterations_ndarray_ok [OF assms(1)] by blast
  obtain df_I where df_I: "unstack_iterations_ndarray I t_space ''Infectado'' = Inr df_I"
      "columns df_I = [''iteration'', ''Dias'', ''Infectado'']"
    using unstack_iterations_ndarray_ok [OF assms(2)] by blast
  obtain agg_E where agg_E:
      "compute_mean_and_boundaries np_mean np_std df_E ''Exposto'' = Inr agg_E"
      "columns agg_E = [''Exposto_mean'', ''Exposto_std'', ''Exposto_upper'', ''Exposto_lower'']"
      "distinct (index agg_E)" "length (vals agg_E) = length (index agg_E)"
    using aggregate_of_long [OF df_E(2), of np_mean np_std] by auto
  obtain agg_I where agg_I:
      "compute_mean_and_boundaries np_mean np_std df_I ''Infectado'' = Inr agg_I"
      "columns agg_I = [''Infectado_mean'', ''Infectado_std'', ''Infectado_upper'', ''Infectado_lower'']"
      "distinct (index agg_I)"
    using aggregate_of_long [OF df_I(2), of np_mean np_std] by auto
  note m = merge_aggregates_eq [OF agg_E(3) agg_I(3) agg_E(4) agg_E(2) agg_I(2)]
  let ?row = "\<lambda>(t, cells). Some t # map Some cells
                      @ (case map_of (zip (index agg_I) (vals agg_I)) t of
                           None \<Rightarrow> replicate (length (columns agg_I)) None
                         | Some cells' \<Rightarrow> map Some cells')"
  let ?zs = "zip (index agg_E) (vals agg_E)"
  let ?data = "\<lparr>index = [0..<length (index agg_E)],
                columns = ''Dias'' # columns agg_E @ columns agg_I,
                vals = map ?row ?zs\<rparr>"
  have dias: "series ?data ''Dias'' = map (\<lambda>(t, cells). Some t) ?zs"
    by (simp add: series_def split_def)
  have nn: "None \<notin> set (series ?data ''Dias'')"
    unfolding dias by auto
  have "assign ''Datas'' (map (map_option (\<lambda>offset. start_datetime + offset)) (series ?data ''Dias'')) ?data
        = \<lparr>index = [0..<length (index agg_E)],
           columns = ''Dias'' # columns agg_E @ columns agg_I @ [''Datas''],
           vals = map (\<lambda>(t, cells). ?row (t, cells) @ [Some (start_datetime + t)]) ?zs\<rparr>"
    unfolding dias
    by (simp add: assign_def agg_E(2) agg_I(2) zip_map_map_same split_def comp_def)
  then have P: "prep_tidy_data_to_plot np_mean np_std E I t_space start_datetime
        = Inr \<lparr>index = [0..<length (index agg_E)],
           columns = ''Dias'' # columns agg_E @ columns agg_I @ [''Datas''],
           vals = map (\<lambda>(t, cells). ?row (t, cells) @ [Some (start_datetime + t)]) ?zs\<rparr>"
    using nn by (simp add: prep_tidy_data_to_plot_def df_E(1) df_I(1) agg_E(1) agg_I(1) m)
  have B: "\<exists>df_E df_I agg_df_E agg_df_I data.
            unstack_iterations_ndarray E t_space ''Exposto'' = Inr df_E
          \<and> unstack_iterations_ndarray I t_space ''Infectado'' = Inr df_I
          \<and> compute_mean_and_boundaries np_mean np_std df_E ''Exposto'' = Inr agg_df_E
          \<and> compute_mean_and_boundaries np_mean np_std df_I ''Infectado'' = Inr agg_df_I
          \<and> prep_tidy_data_to_plot np_mean np_std E I t_space start_datetime = Inr data
          \<and> distinct (index agg_df_E) \<and> distinct (index agg_df_I)
          \<and> columns data = ''Dias'' # columns agg_df_E @ columns agg_df_I @ [''Datas'']
          \<and> vals data =
               map (\<lambda>(t, cells). Some t # map Some cells
                      @ (case map_of (zip (index agg_df_I) (vals agg_df_I)) t of
                           None \<Rightarrow> replicate (length (columns agg_df_I)) None
                         | Some cells' \<Rightarrow> map Some cells')
                      @ [Some (start_datetime + t)])
                   (zip (index agg_df_E) (vals agg_df_E))"
    by (rule exI [of _ df_E], rule exI [of _ df_I], rule exI [of _ agg_E], rule exI [of _ agg_I],
        rule exI [of _ "\<lparr>index = [0..<length (index agg_E)],
           columns = ''Dias'' # columns agg_E @ columns agg_I @ [''Datas''],
           vals = map (\<lambda>(t, cells). ?row (t, cells) @ [Some (start_datetime + t)]) ?zs\<rparr>"])
       (simp add: df_E(1) df_I(1) agg_E(1,3) agg_I(1,3) P split_def)
  show ?thesis using merge_aggregates_MergeError B by blast
qed

lemma compute_mean_and_boundaries_unique_steps:
  "compute_mean_and_boundaries np_mean np_std df variable = Inr agg \<Longrightarrow> distinct (index agg)"
  by (auto simp: compute_mean_and_boundaries_def groupby_agg_def Let_def assign_def
        add_prefix_def droplevel_col_index_def split: if_splits)

lemma compute_mean_and_boundaries_no_MergeError:
  "compute_mean_and_boundaries np_mean np_std df variable \<noteq> Inl MergeError"
  by (auto simp: compute_mean_and_boundaries_def groupby_agg_def Let_def split: if_splits)

lemma unstack_iterations_ndarray_no_MergeError:
  "unstack_iterations_ndarray arr t_space name \<noteq> Inl MergeError"
  by (auto simp: unstack_iterations_ndarray_def DataFrame_def split: if_splits)

text \<open>Inside \<open>prep_tidy_data_to_plot\<close> the validation of the merge cannot fail: the time
  steps of both aggregates come from \<open>groupby\<close> and are unique.\<close>

lemma prep_tidy_data_to_plot_no_MergeError:
  fixes E :: "'c::{linorder,semiring_1,minus} list list"
  shows "prep_tidy_data_to_plot np_mean np_std E I t_space start_datetime \<noteq> Inl MergeError"
proof
  assume a: "prep_tidy_data_to_plot np_mean np_std E I t_space start_datetime = Inl MergeError"
  then obtain df_E df_I :: "(nat, string, 'c) frame" and agg_E agg_I where
    "compute_mean_and_boundaries np_mean np_std df_E ''Exposto'' = Inr agg_E"
    "compute_mean_and_boundaries np_mean np_std df_I ''Infectado'' = Inr agg_I"
    "merge_aggregates agg_E agg_I = Inl MergeError"
    by (auto simp: prep_tidy_data_to_plot_def unstack_iterations_ndarray_no_MergeError
          compute_mean_and_boundaries_no_MergeError split: sum.splits if_splits)
  then show False
    using compute_mean_and_boundaries_unique_steps merge_aggregates_MergeError by blast
qed

theorem prep_tidy_data_to_plot_merge_witness:
  "merge_aggregates
     \<lparr>index = [0, 0 :: int], columns = [''Exposto_mean''], vals = [[1], [2]]\<rparr>
     \<lparr>index = [0], columns = [''Infectado_mean''], vals = [[1]]\<rparr> = Inl MergeError
   \<and> (\<exists>df_E df_I agg_df_E agg_df_I data.
        unstack_iterations_ndarray [[1, 2, 3], [4, 5, 6 :: int]] [0, 1] ''Exposto'' = Inr df_E
      \<and> unstack_iterations_ndarray [[1, 1, 3], [7, 5, 6 :: int]] [0, 1] ''Infectado'' = Inr df_I
      \<and> compute_mean_and_boundaries
            floor_mean spread
            df_E ''Exposto'' = Inr agg_df_E
      \<and> compute_mean_and_boundaries
            floor_mean spread
            df_I ''Infectado'' = Inr agg_df_I
      \<and> prep_tidy_data_to_plot
            floor_mean spread
            [[1, 2, 3], [4, 5, 6]] [[1, 1, 3], [7, 5, 6]] [0, 1] 18341 = Inr data
      \<and> distinct (index agg_df_E) \<and> distinct (index agg_df_I)
      \<and> columns data = ''Dias'' # columns agg_df_E @ columns agg_df_I @ [''Datas'']
      \<and> vals data =
           map (\<lambda>(t, cells). Some t # map Some cells
                  @ (case map_of (zip (index agg_df_I) (vals agg_df_I)) t of
                       None \<Rightarrow> replicate (length (columns agg_df_I)) None
                     | Some cells' \<Rightarrow> map Some cells')
                  @ [Some (18341 + t)])
               (zip (index agg_df_E) (vals agg_df_E)))"
proof -
  note t = prep_tidy_data_to_plot_merge
    [of "[[1, 2, 3], [4, 5, 6 :: int]]" "[0, 1]" "[[1, 1, 3], [7, 5, 6]]"
        floor_mean spread 18341]
  have len: "length [[1, 2, 3], [4, 5, 6 :: int]] = length [0, 1 :: int]"
    "length [[1, 1, 3], [7, 5, 6 :: int]] = length [0, 1 :: int]"
    by simp_all
  from t [OF len] show ?thesis by simp
qed

text \<open>The frame of the example, computed: two time steps, three iterations each.\<close>

lemma prep_tidy_data_to_plot_example:
  "prep_tidy_data_to_plot floor_mean spread [[1, 2, 3], [4, 5, 6]] [[1, 1, 3], [7, 5, 6]] [0, 1] 18341
     = Inr \<lparr>index = [0, 1],
            columns = [''Dias'', ''Exposto_mean'', ''Exposto_std'', ''Exposto_upper'',
                       ''Exposto_lower'', ''Infectado_mean'', ''Infectado_std'',
                       ''Infectado_upper'', ''Infectado_lower'', ''Datas''],
            vals = [[Some 0, Some 2, Some 2, Some 4, Some 0,
                     Some 1, Some 2, Some 3, Some (- 1), Some 18341],
                    [Some 1, Some 5, Some 2, Some 7, Some 3,
                     Some 6, Some 2, Some 8, Some 4, Some 18342]]\<rparr>"
  by code_simp

section \<open>The clamp before a logarithmic scale\<close>

text \<open>
  C4. For a frame \<open>df\<close> of the store, whatever the four parameters are: after the call
  the store holds at \<open>df\<close> the frame it held before, and every other frame that existed is
  unchanged as well. The call returns the reference \<open>df\<close> itself, or it raises: \<open>TypeError\<close>
  from the comparison, or \<open>ValueError\<close> from \<open>df[mask]\<close> when a label of the numeric columns
  is repeated. No cell of the input is replaced by 1.0: the assignment goes to the frame
  \<open>df[mask]\<close> built.
\<close>

theorem treat_negative_values_to_plot_no_op:
  assumes "df < length store"
  shows "snd (treat_negative_values_to_plot is_numeric_dtype le_zero nan one store df) ! df
           = store ! df
       \<and> take (length store)
            (snd (treat_negative_values_to_plot is_numeric_dtype le_zero nan one store df))
           = store
       \<and> (fst (treat_negative_values_to_plot is_numeric_dtype le_zero nan one store df) = Inr df
          \<or> fst (treat_negative_values_to_plot is_numeric_dtype le_zero nan one store df)
               = Inl TypeError
          \<or> (\<exists>msg. fst (treat_negative_values_to_plot is_numeric_dtype le_zero nan one store df)
                  = Inl (ValueError msg)))"
  using assms
  by (auto simp: treat_negative_values_to_plot_def Let_def nth_append split: option.splits)

text \<open>A frame with the non-positive cells -1 and -4, and a column whose label names a
  numeric dtype: the frame is as it was, the new frame holds the 1.0.\<close>

theorem treat_negative_values_to_plot_no_op_witness:
  "snd (treat_negative_values_to_plot (\<lambda>l. l = ''float'') (\<lambda>x :: int. Some (x \<le> 0)) (- 999) 1
          [\<lparr>index = [0 :: nat, 1], columns = [''float'', ''Exposto_lower''],
            vals = [[- 1, 2], [3, - 4]]\<rparr>] 0) ! 0
     = \<lparr>index = [0, 1], columns = [''float'', ''Exposto_lower''], vals = [[- 1, 2], [3, - 4]]\<rparr>
   \<and> fst (treat_negative_values_to_plot (\<lambda>l. l = ''float'') (\<lambda>x :: int. Some (x \<le> 0)) (- 999) 1
          [\<lparr>index = [0 :: nat, 1], columns = [''float'', ''Exposto_lower''],
            vals = [[- 1, 2], [3, - 4]]\<rparr>] 0) = Inr 0"
proof -
  note t = treat_negative_values_to_plot_no_op
    [of 0 "[\<lparr>index = [0 :: nat, 1], columns = [''float'', ''Exposto_lower''],
              vals = [[- 1, 2], [3, - 4 :: int]]\<rparr>]"
        "\<lambda>l. l = ''float''" "\<lambda>x. Some (x \<le> 0)" "- 999" 1]
  have "fst (treat_negative_values_to_plot (\<lambda>l. l = ''float'') (\<lambda>x :: int. Some (x \<le> 0)) (- 999) 1
          [\<lparr>index = [0 :: nat, 1], columns = [''float'', ''Exposto_lower''],
            vals = [[- 1, 2], [3, - 4]]\<rparr>] 0) = Inr 0"
    by (simp add: treat_negative_values_to_plot_def le_zero_frame_def select_columns_def Let_def)
  with t show ?thesis by simp
qed

text \<open>The three outcomes on small frames: the store after a call that returns (the frame
  at 0 as it was, the frame \<open>df[mask]\<close> with the 1.0 behind it), a label of a numeric
  dtype that two columns bear, and a cell that cannot be compared with 0.\<close>

lemma treat_negative_values_to_plot_returns_example:
  "treat_negative_values_to_plot (\<lambda>l. l = ''float'') (\<lambda>x :: int. Some (x \<le> 0)) (- 999) 1
      [\<lparr>index = [0 :: nat, 1], columns = [''float'', ''Exposto_lower''],
        vals = [[- 1, 2], [3, - 4]]\<rparr>] 0
     = (Inr 0,
        [\<lparr>index = [0, 1], columns = [''float'', ''Exposto_lower''], vals = [[- 1, 2], [3, - 4]]\<rparr>,
         \<lparr>index = [0, 1], columns = [''float'', ''Exposto_lower''],
           vals = [[1, - 999], [1, - 999]]\<rparr>])"
  by code_simp

lemma treat_negative_values_to_plot_repeated_label_example:
  "treat_negative_values_to_plot (\<lambda>l. l = ''float'') (\<lambda>x :: int. Some (x \<le> 0)) (- 999) 1
      [\<lparr>index = [0 :: nat, 1], columns = [''float'', ''float''], vals = [[- 1, 2], [3, - 4]]\<rparr>] 0
     = (Inl (ValueError ''repeated column label''),
        [\<lparr>index = [0, 1], columns = [''float'', ''float''], vals = [[- 1, 2], [3, - 4]]\<rparr>])"
  by code_simp

lemma treat_negative_values_to_plot_incomparable_example:
  "treat_negative_values_to_plot (\<lambda>l. l = ''float'')
      (\<lambda>x :: int option. map_option (\<lambda>v. v \<le> 0) x) None (Some 1)
      [\<lparr>index = [0 :: nat], columns = [''float''], vals = [[None]]\<rparr>] 0
     = (Inl TypeError, [\<lparr>index = [0], columns = [''float''], vals = [[None]]\<rparr>])"
  by code_simp

section \<open>The samples of the reproduction number\<close>

text \<open>
  C2. \<open>r0_samples[-min_days:]\<close> restricts the ROWS of the matrix: for two rows of three
  days each and \<open>min_days = 1\<close> the frame \<open>data\<close> holds the last row with all of its three
  days, not the last day of both rows.
\<close>

theorem plot_r0_data_cuts_rows:
  "plot_r0_data [[1, 2, 3], [4, 5, 6 :: int]] 10 1
     = \<lparr>index = [0, 1, 2], columns = [''Dias'', ''r0''], vals = [[8, 4], [9, 5], [10, 6]]\<rparr>"
  by code_simp

end
